theory Spec2Isabelle
  imports Complex_Main
begin

section \<open>Python values, exceptions and the collaborating libraries\<close>

text \<open>
  The three backend variants (\<^verbatim>\<open>backend_api.py\<close>, \<^verbatim>\<open>main.py\<close>,
  \<^verbatim>\<open>electrolyzer_backend.py\<close>) are Python callbacks over a decoded JSON
  document, a time-series write client and a logger. Exceptions are values of
  \<open>error\<close>; a handler returns the exception that escapes it (if any) together
  with the state it leaves behind, so effects made before a raise are kept.
\<close>

datatype error =
    JSONDecodeError
  | UnicodeDecodeError
  | ValueError
  | KeyError string
  | TypeError
  | AttributeError
  | ApiException
  | HTTPException nat string

text \<open>\<^verbatim>\<open>json.JSONDecodeError\<close> and \<^verbatim>\<open>UnicodeDecodeError\<close> are subclasses of
  \<^verbatim>\<open>ValueError\<close>: an \<^verbatim>\<open>except ValueError\<close> clause catches all three.\<close>

fun is_ValueError :: "error \<Rightarrow> bool" where
  "is_ValueError JSONDecodeError = True"
| "is_ValueError UnicodeDecodeError = True"
| "is_ValueError ValueError = True"
| "is_ValueError _ = False"

text \<open>
  What \<^verbatim>\<open>json.loads\<close> returns. A JSON number is a Python int or float; both are
  represented by the real number they denote (comparison of an int or a float with a
  float constant is exact in Python), and the three non-finite floats that
  \<^verbatim>\<open>json.loads\<close> accepts have constructors of their own. A dict is an association
  list, looked up with \<open>map_of\<close>.
\<close>

datatype json =
    JNull
  | JBool bool
  | JNum real
  | JNaN
  | JPosInf
  | JNegInf
  | JStr string
  | JList "json list"
  | JDict "(string \<times> json) list"

text \<open>The payload of an MQTT message, classified by what
  \<^verbatim>\<open>json.loads(msg.payload.decode())\<close> does with it: \<^verbatim>\<open>decode\<close> raises on bytes that
  are not UTF-8, \<^verbatim>\<open>json.loads\<close> raises on text that is not JSON, and otherwise the
  document is returned.\<close>

datatype raw_payload = NotUtf8 | NotJson | Json json

fun loads_decode :: "raw_payload \<Rightarrow> error + json" where
  "loads_decode NotUtf8 = Inl UnicodeDecodeError"
| "loads_decode NotJson = Inl JSONDecodeError"
| "loads_decode (Json v) = Inr v"

text \<open>Sequencing of steps that may raise: the first exception ends the sequence.\<close>

fun try_bind :: "error + 'a \<Rightarrow> ('a \<Rightarrow> error + 'b) \<Rightarrow> error + 'b" where
  "try_bind (Inl e) f = Inl e"
| "try_bind (Inr x) f = f x"

text \<open>\<^verbatim>\<open>payload[k]\<close>: \<^verbatim>\<open>KeyError\<close> on a dict without the key, \<^verbatim>\<open>TypeError\<close> on
  anything that is not a dict (a string key indexes no list, string or number).\<close>

fun getitem :: "json \<Rightarrow> string \<Rightarrow> error + json" where
  "getitem (JDict kvs) k = (case map_of kvs k of None \<Rightarrow> Inl (KeyError k) | Some v \<Rightarrow> Inr v)"
| "getitem _ k = Inl TypeError"

text \<open>\<^verbatim>\<open>data.get(k, d)\<close>: only a dict has the method.\<close>

fun dict_get :: "json \<Rightarrow> string \<Rightarrow> json \<Rightarrow> error + json" where
  "dict_get (JDict kvs) k d = (case map_of kvs k of None \<Rightarrow> Inr d | Some v \<Rightarrow> Inr v)"
| "dict_get _ k d = Inl AttributeError"

text \<open>\<^verbatim>\<open>v > t\<close> for a numeric constant \<open>t\<close>: numbers compare by value, a bool is the
  int 0 or 1, NaN compares false, and every other operand raises \<^verbatim>\<open>TypeError\<close>.\<close>

fun py_gt :: "json \<Rightarrow> real \<Rightarrow> error + bool" where
  "py_gt (JNum x) t = Inr (t < x)"
| "py_gt (JBool b) t = Inr (t < (if b then 1 else 0))"
| "py_gt JNaN t = Inr False"
| "py_gt JPosInf t = Inr True"
| "py_gt JNegInf t = Inr False"
| "py_gt _ t = Inl TypeError"

text \<open>Truthiness, as \<^verbatim>\<open>if x:\<close> tests it.\<close>

fun truthy :: "json \<Rightarrow> bool" where
  "truthy JNull = False"
| "truthy (JBool b) = b"
| "truthy (JNum x) = (x \<noteq> 0)"
| "truthy JNaN = True"
| "truthy JPosInf = True"
| "truthy JNegInf = True"
| "truthy (JStr s) = (s \<noteq> [])"
| "truthy (JList xs) = (xs \<noteq> [])"
| "truthy (JDict kvs) = (kvs \<noteq> [])"

subsection \<open>Log lines and the time-series write client\<close>

datatype level = Print | Info | Warning | Error

datatype log_arg = NoArg | JsonArg json | ErrArg error | AttemptArg nat error | CodeArg nat

text \<open>A line is its level, its fixed text and the value formatted into it.\<close>

datatype log_entry = Log level string log_arg

text \<open>The time handed to \<^verbatim>\<open>Point.time\<close>: a value taken from the document (or an ISO
  string), a Python float such as \<^verbatim>\<open>time.time()\<close> returns, or a \<^verbatim>\<open>datetime\<close>
  (both as seconds since the epoch).\<close>

datatype ptime = TimeOfJson json | TimeFloat real | TimeDatetime real

record point =
  measurement :: string
  tags :: "(string \<times> string) list"
  field_values :: "(string \<times> json) list"
  point_time :: ptime

text \<open>
  \<^verbatim>\<open>write\<close> turns the record into line protocol before it sends anything, in the
  calling thread, and raises \<^verbatim>\<open>ValueError\<close> when that fails. A field value that is a
  list or a dict is not supported; finite numbers, booleans and strings make up the line;
  null and the non-finite floats are left out.
\<close>

fun in_line :: "json \<Rightarrow> bool" where
  "in_line (JNum x) = True"
| "in_line (JBool b) = True"
| "in_line (JStr s) = True"
| "in_line _ = False"

fun unsupported :: "json \<Rightarrow> bool" where
  "unsupported (JList xs) = True"
| "unsupported (JDict kvs) = True"
| "unsupported _ = False"

text \<open>
  The timestamp: a \<^verbatim>\<open>datetime\<close> is converted, a float is refused, no time (null) is
  fine, a bool counts as an integer. A string goes through the client's date parser and
  a number of the document is accepted when it is an int and refused when it is a float;
  the document model does not tell these apart, so \<open>conv\<close> says which strings and
  numbers the client converts.
\<close>

fun convert_timestamp :: "(json \<Rightarrow> bool) \<Rightarrow> ptime \<Rightarrow> error option" where
  "convert_timestamp conv (TimeDatetime t) = None"
| "convert_timestamp conv (TimeFloat x) = Some ValueError"
| "convert_timestamp conv (TimeOfJson JNull) = None"
| "convert_timestamp conv (TimeOfJson (JBool b)) = None"
| "convert_timestamp conv (TimeOfJson (JStr s)) = (if conv (JStr s) then None else Some ValueError)"
| "convert_timestamp conv (TimeOfJson (JNum x)) = (if conv (JNum x) then None else Some ValueError)"
| "convert_timestamp conv (TimeOfJson _) = Some ValueError"

text \<open>\<^verbatim>\<open>to_line_protocol\<close>: the fields first; a point none of whose fields makes it
  into the line is the empty line, and its time is not looked at.\<close>

definition to_line_protocol :: "(json \<Rightarrow> bool) \<Rightarrow> point \<Rightarrow> error option" where
  "to_line_protocol conv p =
     (if list_ex (\<lambda>kv. unsupported (snd kv)) (field_values p) then Some ValueError
      else if list_ex (\<lambda>kv. in_line (snd kv)) (field_values p)
      then convert_timestamp conv (point_time p)
      else None)"

text \<open>The write API: its write type, whether the server takes a request at the moment,
  which document values its date helper converts, and the records the server has taken,
  each with its bucket. A request that fails raises in the synchronous client
  (\<^verbatim>\<open>backend_api.py\<close>); in the asynchronous client of the other two variants the failure
  stays in the returned future and the caller goes on.\<close>

record sink =
  synchronous :: bool
  accepting :: bool
  converts :: "json \<Rightarrow> bool"
  written :: "(string \<times> point) list"

definition api_write :: "sink \<Rightarrow> string \<Rightarrow> point \<Rightarrow> error + sink" where
  "api_write s bucket p =
     (case to_line_protocol (converts s) p of
        Some e \<Rightarrow> Inl e
      | None \<Rightarrow>
          if accepting s then Inr (s\<lparr>written := written s @ [(bucket, p)]\<rparr>)
          else if synchronous s then Inl ApiException
          else Inr s)"

section \<open>backend\_api.py\<close>

definition INFLUX_BUCKET :: string where
  "INFLUX_BUCKET = ''electrolyzer_data''"

text \<open>The thresholds are float and int literals; \<^verbatim>\<open>2.2\<close> is the double
  \<^verbatim>\<open>0x1.199999999999ap+1\<close>, written here exactly.\<close>

definition THRESHOLD_VOLTAGE_HIGH :: real where
  "THRESHOLD_VOLTAGE_HIGH = 2476979795053773 / 2 ^ 50"

definition THRESHOLD_CONDUCTIVITY_HIGH :: real where
  "THRESHOLD_CONDUCTIVITY_HIGH = 1 / 2"

definition THRESHOLD_TEMP_HIGH :: real where
  "THRESHOLD_TEMP_HIGH = 90"

record api_state =
  write_api :: sink
  stdout :: "log_entry list"

definition print :: "api_state \<Rightarrow> log_entry list \<Rightarrow> api_state" where
  "print st ls = st\<lparr>stdout := stdout st @ ls\<rparr>"

text \<open>Lines 36 to 45 of \<^verbatim>\<open>on_message\<close>: the \<^verbatim>\<open>if/elif/elif\<close> chain. A later field
  is read only when the earlier rules did not fire.\<close>

definition threshold_status :: "json \<Rightarrow> error + string" where
  "threshold_status payload =
     try_bind (getitem payload ''conductivity'') (\<lambda>c.
     try_bind (py_gt c THRESHOLD_CONDUCTIVITY_HIGH) (\<lambda>high_c.
     if high_c then Inr ''water_contamination_alert''
     else
       try_bind (getitem payload ''voltage'') (\<lambda>v.
       try_bind (py_gt v THRESHOLD_VOLTAGE_HIGH) (\<lambda>high_v.
       if high_v then Inr ''voltage_anomaly_alert''
       else
         try_bind (getitem payload ''temperature'') (\<lambda>t.
         try_bind (py_gt t THRESHOLD_TEMP_HIGH) (\<lambda>high_t.
         if high_t then Inr ''overheating_alert''
         else Inr ''normal''))))))"

text \<open>The line each branch prints.\<close>

definition alert_lines :: "string \<Rightarrow> log_entry list" where
  "alert_lines status =
     (if status = ''water_contamination_alert''
      then [Log Print ''ALERT: High conductivity detected. Possible contamination!'' NoArg]
      else if status = ''voltage_anomaly_alert''
      then [Log Print ''ALERT: High voltage detected. Possible degradation!'' NoArg]
      else if status = ''overheating_alert''
      then [Log Print ''ALERT: High temperature detected. Cooling issue!'' NoArg]
      else [])"

text \<open>Lines 50 to 54: the placeholder for the AI prediction.\<close>

definition ai_placeholder :: "string \<Rightarrow> string \<times> int" where
  "ai_placeholder status =
     (if status \<noteq> ''normal'' then (''Anomaly Detected'', 45) else (''Normal'', 99))"

text \<open>Lines 57 to 63: every field is read with \<^verbatim>\<open>payload[...]\<close>.\<close>

definition sensor_point :: "json \<Rightarrow> error + point" where
  "sensor_point payload =
     try_bind (getitem payload ''temperature'') (\<lambda>temperature.
     try_bind (getitem payload ''voltage'') (\<lambda>voltage.
     try_bind (getitem payload ''current'') (\<lambda>current.
     try_bind (getitem payload ''conductivity'') (\<lambda>conductivity.
     try_bind (getitem payload ''timestamp'') (\<lambda>timestamp.
     Inr \<lparr>measurement = ''electrolyzer_metrics'',
          tags = [(''host'', ''electrolyzer_1'')],
          field_values = [(''temperature'', temperature), (''voltage'', voltage),
                    (''current'', current), (''conductivity'', conductivity)],
          point_time = TimeOfJson timestamp\<rparr>)))))"

definition ai_point :: "string \<Rightarrow> int \<Rightarrow> real \<Rightarrow> point" where
  "ai_point ai_prediction_status health_score now =
     \<lparr>measurement = ''ai_predictions'',
      tags = [(''host'', ''electrolyzer_1'')],
      field_values = [(''predicted_status'', JStr ai_prediction_status),
                (''health_score'', JNum (of_int health_score))],
      point_time = TimeFloat now\<rparr>"

text \<open>\<^verbatim>\<open>on_message\<close>: there is no \<^verbatim>\<open>try\<close> in it, so whatever a step raises leaves
  the callback. \<open>now\<close> is what \<^verbatim>\<open>time.time()\<close> returns.\<close>

definition on_message :: "api_state \<Rightarrow> real \<Rightarrow> raw_payload \<Rightarrow> error option \<times> api_state" where
  "on_message st now msg =
     (case loads_decode msg of
        Inl e \<Rightarrow> (Some e, st)
      | Inr payload \<Rightarrow>
          let st1 = print st [Log Print ''Received: '' (JsonArg payload)] in
          (case threshold_status payload of
             Inl e \<Rightarrow> (Some e, st1)
           | Inr status \<Rightarrow>
               let st2 = print st1 (alert_lines status);
                   assessment = ai_placeholder status in
               (case sensor_point payload of
                  Inl e \<Rightarrow> (Some e, st2)
                | Inr sp \<Rightarrow>
                    (case api_write (write_api st2) INFLUX_BUCKET sp of
                       Inl e \<Rightarrow> (Some e, st2)
                     | Inr s3 \<Rightarrow>
                         (case api_write s3 INFLUX_BUCKET
                                 (ai_point (fst assessment) (snd assessment) now) of
                            Inl e \<Rightarrow> (Some e, st2\<lparr>write_api := s3\<rparr>)
                          | Inr s4 \<Rightarrow>
                              (None, print (st2\<lparr>write_api := s4\<rparr>)
                                       [Log Print ''Data written to InfluxDB'' NoArg]))))))"

section \<open>main.py\<close>

text \<open>The process environment and \<^verbatim>\<open>os.getenv(key, default)\<close>.\<close>

type_synonym env = "string \<rightharpoonup> string"

definition getenv :: "env \<Rightarrow> string \<Rightarrow> string \<Rightarrow> string" where
  "getenv e k d = (case e k of None \<Rightarrow> d | Some v \<Rightarrow> v)"

text \<open>\<^verbatim>\<open>int(os.getenv("MQTT_PORT", 1883))\<close>: the default is the int itself; a value
  from the environment is a string that \<^verbatim>\<open>int\<close> parses or rejects with
  \<^verbatim>\<open>ValueError\<close>. \<open>py_int\<close> stands for \<^verbatim>\<open>int\<close> on strings.\<close>

definition getenv_port :: "(string \<Rightarrow> int option) \<Rightarrow> env \<Rightarrow> error + int" where
  "getenv_port py_int e =
     (case e ''MQTT_PORT'' of
        None \<Rightarrow> Inr 1883
      | Some s \<Rightarrow> (case py_int s of None \<Rightarrow> Inl ValueError | Some n \<Rightarrow> Inr n))"

text \<open>Lines 28 to 37: the module constants, read once at import.\<close>

record main_config =
  MQTT_BROKER :: string
  MQTT_PORT :: int
  MQTT_TOPIC :: string
  MQTT_USER :: string
  MQTT_PASS :: string
  INFLUX_URL :: string
  INFLUX_TOKEN :: string
  INFLUX_ORG :: string
  INFLUX_BUCKET_main :: string
  SECRET_KEY :: string

definition main_config :: "(string \<Rightarrow> int option) \<Rightarrow> env \<Rightarrow> error + main_config" where
  "main_config py_int e =
     try_bind (getenv_port py_int e) (\<lambda>port.
     Inr \<lparr>MQTT_BROKER = getenv e ''MQTT_BROKER'' ''mosquitto'',
          MQTT_PORT = port,
          MQTT_TOPIC = ''electrolyzer/sensors'',
          MQTT_USER = getenv e ''MQTT_USER'' ''admin'',
          MQTT_PASS = getenv e ''MQTT_PASS'' ''secret'',
          INFLUX_URL = getenv e ''INFLUX_URL'' ''http://influxdb:8086'',
          INFLUX_TOKEN = getenv e ''INFLUX_TOKEN'' ''influx-token-2024'',
          INFLUX_ORG = getenv e ''INFLUX_ORG'' ''electrolyzer'',
          INFLUX_BUCKET_main = getenv e ''INFLUX_BUCKET'' ''electrolyzer_data'',
          SECRET_KEY = getenv e ''SECRET_KEY'' ''your-secret-key''\<rparr>)"

text \<open>The fitted outlier model is library code: its two methods are taken as they
  are, each returning the first component of its result or raising.\<close>

record ai_model =
  predict :: "json list \<Rightarrow> error + int"
  decision_function :: "json list \<Rightarrow> error + real"

text \<open>The globals of the module. The texts of this variant's log lines are Arabic in
  the source and are given in English here.\<close>

record main_state =
  latest_data :: json
  model :: "ai_model option"
  main_write_api :: "sink option"
  main_bucket :: string
  main_log :: "log_entry list"

definition main_initial :: "string \<Rightarrow> main_state" where
  "main_initial bucket =
     \<lparr>latest_data = JDict [], model = None, main_write_api = None,
      main_bucket = bucket, main_log = []\<rparr>"

definition logger_main :: "main_state \<Rightarrow> log_entry \<Rightarrow> main_state" where
  "logger_main st l = st\<lparr>main_log := main_log st @ [l]\<rparr>"

text \<open>Lines 78 to 86: every field is read with \<^verbatim>\<open>data.get\<close> and a default.
  \<open>now_iso\<close> is \<^verbatim>\<open>datetime.utcnow().isoformat()\<close>.\<close>

definition sensor_data_point :: "json \<Rightarrow> string \<Rightarrow> error + point" where
  "sensor_data_point data now_iso =
     try_bind (dict_get data ''timestamp'' (JStr now_iso)) (\<lambda>timestamp.
     try_bind (dict_get data ''temperature'' (JNum 0)) (\<lambda>temperature.
     try_bind (dict_get data ''pressure'' (JNum 0)) (\<lambda>pressure.
     try_bind (dict_get data ''voltage'' (JNum 0)) (\<lambda>voltage.
     try_bind (dict_get data ''current'' (JNum 0)) (\<lambda>current.
     try_bind (dict_get data ''flow_rate'' (JNum 0)) (\<lambda>flow_rate.
     Inr \<lparr>measurement = ''sensor_data'',
          tags = [(''source'', ''backend'')],
          field_values = [(''temperature'', temperature), (''pressure'', pressure),
                          (''voltage'', voltage), (''current'', current),
                          (''flow_rate'', flow_rate)],
          point_time = TimeOfJson timestamp\<rparr>))))))"

text \<open>The \<^verbatim>\<open>try\<close> block of \<^verbatim>\<open>on_mqtt_message\<close> (lines 72 to 90): the exception it
  raises, if any, and the globals at that moment. \<^verbatim>\<open>latest_data\<close> is assigned right
  after the document is decoded.\<close>

definition main_try_block :: "main_state \<Rightarrow> string \<Rightarrow> raw_payload \<Rightarrow> error option \<times> main_state" where
  "main_try_block st now_iso msg =
     (case loads_decode msg of
        Inl e \<Rightarrow> (Some e, st)
      | Inr data \<Rightarrow>
          let st1 = logger_main st (Log Info ''Received data via MQTT: '' (JsonArg data));
              st2 = st1\<lparr>latest_data := data\<rparr> in
          (case main_write_api st2 of
             None \<Rightarrow> (None, logger_main st2 (Log Warning ''InfluxDB not available in Backend.'' NoArg))
           | Some api \<Rightarrow>
               (case sensor_data_point data now_iso of
                  Inl e \<Rightarrow> (Some e, st2)
                | Inr p \<Rightarrow>
                    (case api_write api (main_bucket st2) p of
                       Inl e \<Rightarrow> (Some e, st2)
                     | Inr api' \<Rightarrow>
                         (None, logger_main (st2\<lparr>main_write_api := Some api'\<rparr>)
                                  (Log Info ''Data saved to InfluxDB from Backend.'' NoArg))))))"

text \<open>\<^verbatim>\<open>on_mqtt_message\<close>: \<^verbatim>\<open>except Exception\<close> catches whatever the block raised
  and logs it; the callback always returns.\<close>

definition main_on_mqtt_message :: "main_state \<Rightarrow> string \<Rightarrow> raw_payload \<Rightarrow> main_state" where
  "main_on_mqtt_message st now_iso msg =
     (case main_try_block st now_iso msg of
        (None, st') \<Rightarrow> st'
      | (Some e, st') \<Rightarrow>
          logger_main st' (Log Error ''Failed to process MQTT message: '' (ErrArg e)))"

text \<open>\<^verbatim>\<open>load_ai_model\<close>: \<open>fitted\<close> is what constructing and fitting the forest gives.\<close>

definition load_ai_model :: "main_state \<Rightarrow> error + ai_model \<Rightarrow> main_state" where
  "load_ai_model st fitted =
     (case fitted of
        Inr m \<Rightarrow> logger_main (st\<lparr>model := Some m\<rparr>) (Log Info ''AI Model loaded.'' NoArg)
      | Inl e \<Rightarrow> (logger_main st (Log Error ''Failed to load AI Model: '' (ErrArg e)))\<lparr>model := None\<rparr>)"

text \<open>Python's two-argument \<^verbatim>\<open>max\<close> and \<^verbatim>\<open>min\<close> keep the first argument unless the
  second is strictly greater (smaller).\<close>

definition py_max :: "real \<Rightarrow> real \<Rightarrow> real" where
  "py_max a b = (if b > a then b else a)"

definition py_min :: "real \<Rightarrow> real \<Rightarrow> real" where
  "py_min a b = (if b < a then b else a)"

text \<open>Line 167. The decision value is a finite float; \<open>fl\<close> is the rounding that
  float arithmetic applies to the exact result of each operation (the identity gives
  exact arithmetic).\<close>

definition health_score :: "(real \<Rightarrow> real) \<Rightarrow> real \<Rightarrow> real" where
  "health_score fl prob = py_max 0 (py_min 100 (fl (fl (1 - \<bar>prob\<bar>) * 100)))"

record prediction =
  status :: string
  health :: real
  probability :: real

definition features :: "json \<Rightarrow> error + json list" where
  "features data =
     try_bind (dict_get data ''temperature'' (JNum 0)) (\<lambda>temperature.
     try_bind (dict_get data ''pressure'' (JNum 0)) (\<lambda>pressure.
     try_bind (dict_get data ''voltage'' (JNum 0)) (\<lambda>voltage.
     try_bind (dict_get data ''current'' (JNum 0)) (\<lambda>current.
     try_bind (dict_get data ''flow_rate'' (JNum 0)) (\<lambda>flow_rate.
     Inr [temperature, pressure, voltage, current, flow_rate])))))"

definition prediction_point :: "real \<Rightarrow> string \<Rightarrow> string \<Rightarrow> point" where
  "prediction_point score st now_iso =
     \<lparr>measurement = ''ai_predictions'', tags = [],
      field_values = [(''health_score'', JNum score), (''predicted_status'', JStr st)],
      point_time = TimeOfJson (JStr now_iso)\<rparr>"

text \<open>\<^verbatim>\<open>predict_anomaly\<close> (the body, entered once the token is verified): the
  response or the exception, and the globals afterwards.\<close>

definition predict_anomaly ::
  "(real \<Rightarrow> real) \<Rightarrow> main_state \<Rightarrow> string \<Rightarrow> (error + prediction) \<times> main_state" where
  "predict_anomaly fl st now_iso =
     (case (if truthy (latest_data st) then model st else None) of
        None \<Rightarrow> (Inl (HTTPException 400 ''No data or model not loaded.''), st)
      | Some m \<Rightarrow>
          (case features (latest_data st) of
             Inl e \<Rightarrow> (Inl e, st)
           | Inr fs \<Rightarrow>
               (case predict m fs of
                  Inl e \<Rightarrow> (Inl e, st)
                | Inr pred \<Rightarrow>
                    (case decision_function m fs of
                       Inl e \<Rightarrow> (Inl e, st)
                     | Inr prob \<Rightarrow>
                         let score = health_score fl prob;
                             s = (if pred = - 1 then ''anomaly'' else ''normal'');
                             response = \<lparr>status = s, health = score, probability = \<bar>prob\<bar>\<rparr> in
                         (case main_write_api st of
                            None \<Rightarrow> (Inr response, st)
                          | Some api \<Rightarrow>
                              (case api_write api (main_bucket st) (prediction_point score s now_iso) of
                                 Inl e \<Rightarrow> (Inl e, st)
                               | Inr api' \<Rightarrow> (Inr response, st\<lparr>main_write_api := Some api'\<rparr>)))))))"


section \<open>electrolyzer\_backend.py\<close>

text \<open>The MQTT client object: what \<^verbatim>\<open>username_pw_set\<close>, a \<^verbatim>\<open>connect\<close> that
  returned (the broker it reached), \<^verbatim>\<open>loop_start\<close> and \<^verbatim>\<open>subscribe\<close> leave in it, and
  what \<^verbatim>\<open>is_connected()\<close> answers (the network loop sets it).\<close>

record mqtt_client =
  client_id :: string
  username :: string
  password :: string
  broker :: "(string \<times> int) option"
  loop_running :: bool
  is_connected :: bool
  subscriptions :: "string list"

datatype flux_query = FromBucketLimit string nat

text \<open>The InfluxDB client: its settings, whether the server answers a query at the
  moment, and the queries sent through it.\<close>

record influx_client =
  url :: string
  token :: string
  org :: string
  reachable :: bool
  queries :: "flux_query list"

record electro_state =
  mqtt :: "mqtt_client option"
  influx :: "influx_client option"
  electro_write_api :: "sink option"
  electro_bucket :: string
  electro_log :: "log_entry list"
  slept :: nat

definition electro_initial :: "env \<Rightarrow> electro_state" where
  "electro_initial e =
     \<lparr>mqtt = None, influx = None, electro_write_api = None,
      electro_bucket = getenv e ''INFLUX_BUCKET'' ''electrolyzer_data'',
      electro_log = [], slept = 0\<rparr>"

definition logger :: "electro_state \<Rightarrow> log_entry \<Rightarrow> electro_state" where
  "logger st l = st\<lparr>electro_log := electro_log st @ [l]\<rparr>"

definition sleep :: "electro_state \<Rightarrow> nat \<Rightarrow> electro_state" where
  "sleep st n = st\<lparr>slept := slept st + n\<rparr>"

text \<open>What the process cannot decide by itself: \<^verbatim>\<open>int\<close> on strings,
  \<^verbatim>\<open>datetime.fromisoformat\<close> on strings (\<open>None\<close> where it raises
  \<^verbatim>\<open>ValueError\<close>), for each attempt of the retry loops the exception that
  \<^verbatim>\<open>InfluxDBClient(...)\<close>, \<^verbatim>\<open>write_api(...)\<close> and \<^verbatim>\<open>connect\<close> with
  \<^verbatim>\<open>loop_start\<close> raise, if any, whether the sink answers a query, whether it takes
  a write, and which document values the write client converts to a timestamp.\<close>

record world =
  py_int :: "string \<Rightarrow> int option"
  fromisoformat :: "string \<Rightarrow> real option"
  influx_ctor :: "nat \<Rightarrow> error option"
  write_api_ctor :: "nat \<Rightarrow> error option"
  mqtt_connect :: "nat \<Rightarrow> error option"
  sink_reachable :: bool
  write_accepted :: bool
  date_helper :: "json \<Rightarrow> bool"

text \<open>The loop of \<^verbatim>\<open>setup_influxdb\<close> (lines 47 to 58): \<open>n\<close> attempts are left,
  \<open>attempt\<close> is the loop variable.\<close>

fun influx_attempts ::
  "world \<Rightarrow> string \<times> string \<times> string \<Rightarrow> nat \<Rightarrow> nat \<Rightarrow> electro_state \<Rightarrow> bool \<times> electro_state" where
  "influx_attempts w cfg 0 attempt st =
     (False, logger st (Log Error ''Final failure in connecting to InfluxDB'' NoArg))"
| "influx_attempts w cfg (Suc n) attempt st =
     (let failed = (\<lambda>st' e.
            let st1 = logger st' (Log Warning ''Failed to connect to InfluxDB'' (AttemptArg (attempt + 1) e));
                st2 = (if attempt < 4 then sleep st1 5 else st1) in
            influx_attempts w cfg n (attempt + 1) st2) in
      case influx_ctor w attempt of
        Some e \<Rightarrow> failed st e
      | None \<Rightarrow>
          let st1 = st\<lparr>influx := Some \<lparr>url = fst cfg, token = fst (snd cfg), org = snd (snd cfg),
                                       reachable = sink_reachable w, queries = []\<rparr>\<rparr> in
          (case write_api_ctor w attempt of
             Some e \<Rightarrow> failed st1 e
           | None \<Rightarrow>
               (True,
                logger (st1\<lparr>electro_write_api := Some \<lparr>synchronous = False, accepting = write_accepted w,
                                                    converts = date_helper w, written = []\<rparr>\<rparr>)
                  (Log Info ''Successfully connected to InfluxDB from Backend!'' NoArg))))"

text \<open>\<^verbatim>\<open>setup_influxdb\<close>: a token that is unset, empty or the built-in default is
  reported and the function returns \<^verbatim>\<open>False\<close>.\<close>

definition setup_influxdb :: "world \<Rightarrow> env \<Rightarrow> electro_state \<Rightarrow> bool \<times> electro_state" where
  "setup_influxdb w e st =
     (let influx_token = getenv e ''INFLUX_TOKEN'' ''influx-token-2024'' in
      if influx_token = [] \<or> influx_token = ''influx-token-2024''
      then (False, logger st (Log Error
              ''INFLUX_TOKEN is not set properly in .env! Please update it.'' NoArg))
      else
        let influx_url = getenv e ''INFLUX_URL'' ''http://localhost:8086'';
            influx_org = getenv e ''INFLUX_ORG'' ''electrolyzer'' in
        influx_attempts w (influx_url, influx_token, influx_org) 5 0 st)"

text \<open>The loop of \<^verbatim>\<open>setup_mqtt\<close> (lines 133 to 144).\<close>

fun mqtt_attempts ::
  "world \<Rightarrow> string \<times> int \<Rightarrow> mqtt_client \<Rightarrow> nat \<Rightarrow> nat \<Rightarrow> electro_state \<Rightarrow> bool \<times> electro_state" where
  "mqtt_attempts w addr c 0 attempt st =
     (False, logger st (Log Error ''Final MQTT connection failure.'' NoArg))"
| "mqtt_attempts w addr c (Suc n) attempt st =
     (case mqtt_connect w attempt of
        None \<Rightarrow>
          (True,
           logger (st\<lparr>mqtt := Some (c\<lparr>broker := Some addr, loop_running := True\<rparr>)\<rparr>)
             (Log Info ''MQTT setup completed.'' NoArg))
      | Some e \<Rightarrow>
          let st1 = logger st (Log Warning ''MQTT setup failed'' (AttemptArg (attempt + 1) e));
              st2 = (if attempt < 4 then sleep st1 5 else st1) in
          mqtt_attempts w addr c n (attempt + 1) st2)"

text \<open>\<^verbatim>\<open>setup_mqtt\<close>: the port is parsed outside every \<^verbatim>\<open>try\<close>, so a port that
  \<^verbatim>\<open>int\<close> rejects raises out of the function; the client object is assigned to the
  global before the first attempt.\<close>

definition setup_mqtt :: "world \<Rightarrow> env \<Rightarrow> electro_state \<Rightarrow> (error + bool) \<times> electro_state" where
  "setup_mqtt w e st =
     (let mqtt_broker = getenv e ''MQTT_BROKER'' ''localhost'' in
      case getenv_port (py_int w) e of
        Inl err \<Rightarrow> (Inl err, st)
      | Inr mqtt_port \<Rightarrow>
          let mqtt_user = getenv e ''MQTT_USER'' ''admin'';
              mqtt_pass = getenv e ''MQTT_PASS'' ''secret'';
              c = \<lparr>client_id = ''backend_client'', username = mqtt_user, password = mqtt_pass,
                   broker = None, loop_running = False, is_connected = False,
                   subscriptions = []\<rparr>;
              r = mqtt_attempts w (mqtt_broker, mqtt_port) c 5 0 (st\<lparr>mqtt := Some c\<rparr>) in
          (Inr (fst r), snd r))"

text \<open>The startup half of \<^verbatim>\<open>lifespan\<close> (lines 150 to 157), up to its \<^verbatim>\<open>yield\<close>:
  \<open>None\<close> means the \<^verbatim>\<open>yield\<close> is reached and the application serves; an exception
  means startup is aborted.\<close>

definition lifespan_startup :: "world \<Rightarrow> env \<Rightarrow> electro_state \<Rightarrow> error option \<times> electro_state" where
  "lifespan_startup w e st =
     (let r1 = setup_influxdb w e st;
          influx_success = fst r1;
          r2 = setup_mqtt w e (snd r1) in
      case fst r2 of
        Inl err \<Rightarrow> (Some err, snd r2)
      | Inr mqtt_success \<Rightarrow>
          if influx_success \<and> mqtt_success
          then (None, logger (snd r2) (Log Info ''All services started successfully!'' NoArg))
          else (None, logger (snd r2) (Log Error
                  ''One or more services failed to start. Check logs and .env file.'' NoArg)))"

text \<open>\<^verbatim>\<open>on_mqtt_connect\<close>.\<close>

definition on_mqtt_connect :: "env \<Rightarrow> electro_state \<Rightarrow> mqtt_client \<Rightarrow> nat \<Rightarrow> electro_state \<times> mqtt_client" where
  "on_mqtt_connect e st c rc =
     (if rc = 0
      then (logger st (Log Info ''Successfully connected to MQTT Broker from Backend!'' NoArg),
            c\<lparr>subscriptions := subscriptions c @ [getenv e ''MQTT_TOPIC'' ''electrolyzer/sensors'']\<rparr>)
      else (logger st (Log Error ''MQTT connection failed'' (CodeArg rc)), c))"

text \<open>\<^verbatim>\<open>ts_str.replace('Z', '+00:00')\<close>.\<close>

definition replace_Z :: "string \<Rightarrow> string" where
  "replace_Z s = concat (map (\<lambda>c. if c = CHR ''Z'' then ''+00:00'' else [c]) s)"

text \<open>Lines 77 to 82, on the value of \<^verbatim>\<open>data.get("timestamp")\<close>. A falsy value
  (absent, null, empty, zero) takes the clock; a non-empty string goes through
  \<^verbatim>\<open>fromisoformat\<close>; \<^verbatim>\<open>'Z' in ts_str\<close> raises \<^verbatim>\<open>TypeError\<close> on a number or bool, a
  list or dict has no \<^verbatim>\<open>replace\<close> and is no argument for \<^verbatim>\<open>fromisoformat\<close>.\<close>

definition parse_point_time :: "world \<Rightarrow> real \<Rightarrow> json \<Rightarrow> error + real" where
  "parse_point_time w now ts_str =
     (if truthy ts_str then
        (case ts_str of
           JStr s \<Rightarrow>
             (let s' = (if CHR ''Z'' \<in> set s then replace_Z s else s) in
              case fromisoformat w s' of None \<Rightarrow> Inl ValueError | Some t \<Rightarrow> Inr t)
         | JList xs \<Rightarrow> (if JStr ''Z'' \<in> set xs then Inl AttributeError else Inl TypeError)
         | JDict kvs \<Rightarrow> (if ''Z'' \<in> fst ` set kvs then Inl AttributeError else Inl TypeError)
         | _ \<Rightarrow> Inl TypeError)
      else Inr now)"

definition metrics_point :: "json \<Rightarrow> real \<Rightarrow> error + point" where
  "metrics_point data t =
     try_bind (dict_get data ''temperature'' (JNum 0)) (\<lambda>temperature.
     try_bind (dict_get data ''voltage'' (JNum 0)) (\<lambda>voltage.
     try_bind (dict_get data ''current'' (JNum 0)) (\<lambda>current.
     try_bind (dict_get data ''conductivity'' (JNum 0)) (\<lambda>conductivity.
     Inr \<lparr>measurement = ''electrolyzer_metrics'',
          tags = [(''host'', ''electrolyzer_1'')],
          field_values = [(''temperature'', temperature), (''voltage'', voltage),
                          (''current'', current), (''conductivity'', conductivity)],
          point_time = TimeDatetime t\<rparr>))))"

text \<open>Lines 94 to 98. The literal \<^verbatim>\<open>2.05\<close> is the double
  \<^verbatim>\<open>0x1.0666666666666p+1\<close>; \<^verbatim>\<open>or\<close> evaluates its right operand only when the left
  one is false.\<close>

definition predicted_status :: "json \<Rightarrow> error + string \<times> int" where
  "predicted_status data =
     try_bind (dict_get data ''conductivity'' (JNum 0)) (\<lambda>c.
     try_bind (py_gt c (1 / 2)) (\<lambda>high_c.
     if high_c then Inr (''anomaly'', 45)
     else
       try_bind (dict_get data ''voltage'' (JNum 0)) (\<lambda>v.
       try_bind (py_gt v (2308094809027379 / 2 ^ 50)) (\<lambda>high_v.
       if high_v then Inr (''anomaly'', 45) else Inr (''normal'', 100)))))"

text \<open>Lines 100 to 104: the assessment point, stamped with a \<^verbatim>\<open>datetime\<close>.\<close>

definition assessment_point :: "string \<Rightarrow> int \<Rightarrow> real \<Rightarrow> point" where
  "assessment_point predicted score now =
     \<lparr>measurement = ''ai_predictions'',
      tags = [(''host'', ''electrolyzer_1'')],
      field_values = [(''predicted_status'', JStr predicted),
                      (''health_score'', JNum (of_int score))],
      point_time = TimeDatetime now\<rparr>"

text \<open>The \<^verbatim>\<open>try\<close> block of \<^verbatim>\<open>on_mqtt_message\<close> (lines 71 to 109). \<open>now\<close> and
  \<open>now'\<close> are the two readings of \<^verbatim>\<open>datetime.now(timezone.utc)\<close>.\<close>

definition electro_try_block ::
  "world \<Rightarrow> electro_state \<Rightarrow> real \<Rightarrow> real \<Rightarrow> raw_payload \<Rightarrow> error option \<times> electro_state" where
  "electro_try_block w st now now' msg =
     (case loads_decode msg of
        Inl e \<Rightarrow> (Some e, st)
      | Inr data \<Rightarrow>
          let st1 = logger st (Log Info ''Received sensor data: '' (JsonArg data)) in
          (case electro_write_api st1 of
             None \<Rightarrow> (None, logger st1 (Log Warning ''InfluxDB API is not available.'' NoArg))
           | Some api \<Rightarrow>
               (case try_bind (dict_get data ''timestamp'' JNull) (\<lambda>ts_str.
                     try_bind (parse_point_time w now ts_str) (\<lambda>t.
                     try_bind (metrics_point data t) (\<lambda>p.
                     api_write api (electro_bucket st1) p))) of
                  Inl e \<Rightarrow> (Some e, st1)
                | Inr api1 \<Rightarrow>
                    let st2 = logger (st1\<lparr>electro_write_api := Some api1\<rparr>)
                                (Log Info ''Sensor data written to InfluxDB.'' NoArg) in
                    (case try_bind (predicted_status data) (\<lambda>a.
                          api_write api1 (electro_bucket st2)
                            (assessment_point (fst a) (snd a) now')) of
                       Inl e \<Rightarrow> (Some e, st2)
                     | Inr api2 \<Rightarrow>
                         (None, logger (st2\<lparr>electro_write_api := Some api2\<rparr>)
                                  (Log Info ''AI prediction written to InfluxDB.'' NoArg))))))"

text \<open>\<^verbatim>\<open>on_mqtt_message\<close> with its three \<^verbatim>\<open>except\<close> clauses, tried in order.\<close>

definition on_mqtt_message ::
  "world \<Rightarrow> electro_state \<Rightarrow> real \<Rightarrow> real \<Rightarrow> raw_payload \<Rightarrow> electro_state" where
  "on_mqtt_message w st now now' msg =
     (case electro_try_block w st now now' msg of
        (None, st') \<Rightarrow> st'
      | (Some e, st') \<Rightarrow>
          if e = JSONDecodeError
          then logger st' (Log Error ''Invalid JSON in MQTT payload: '' (ErrArg e))
          else if is_ValueError e
          then logger st' (Log Error ''Invalid timestamp in data: '' (ErrArg e))
          else logger st' (Log Error ''Failed to process MQTT message: '' (ErrArg e)))"

text \<open>\<^verbatim>\<open>status[k] = v\<close> on a dict kept in insertion order.\<close>

fun dict_set :: "(string \<times> 'v) list \<Rightarrow> string \<Rightarrow> 'v \<Rightarrow> (string \<times> 'v) list" where
  "dict_set [] k v = [(k, v)]"
| "dict_set ((k', v') # kvs) k v = (if k' = k then (k, v) # kvs else (k', v') # dict_set kvs k v)"

text \<open>\<^verbatim>\<open>health_check\<close> (lines 183 to 205): the InfluxDB part sends a query through
  the client and waits for the answer; a failed query is logged.\<close>

definition health_check :: "electro_state \<Rightarrow> (string \<times> string) list \<times> electro_state" where
  "health_check st =
     (let status0 = [(''status'', ''ok'')];
          r = (case influx st of
                 Some c \<Rightarrow>
                   let st1 = st\<lparr>influx := Some (c\<lparr>queries := queries c @
                                 [FromBucketLimit (electro_bucket st) 1]\<rparr>)\<rparr> in
                   if reachable c
                   then (dict_set status0 ''influxdb'' ''connected'', st1)
                   else (dict_set status0 ''influxdb'' ''not_connected'',
                         logger st1 (Log Warning ''InfluxDB health check failed: '' (ErrArg ApiException)))
               | None \<Rightarrow> (dict_set status0 ''influxdb'' ''not_connected'', st));
          status1 = fst r;
          status2 = (case mqtt st of
                       Some c \<Rightarrow>
                         if is_connected c then dict_set status1 ''mqtt'' ''connected''
                         else dict_set status1 ''mqtt'' ''not_connected''
                     | None \<Rightarrow> dict_set status1 ''mqtt'' ''not_connected'');
          status3 = (if ''not_connected'' \<in> snd ` set status2
                     then dict_set status2 ''status'' ''degraded'' else status2)
      in (status3, snd r))"

section \<open>Sample inputs\<close>

text \<open>A reading of the inbound schema with the given conductivity, voltage and
  temperature.\<close>

definition reading :: "real \<Rightarrow> real \<Rightarrow> real \<Rightarrow> json" where
  "reading c v t =
     JDict [(''temperature'', JNum t), (''voltage'', JNum v), (''current'', JNum 550),
            (''conductivity'', JNum c), (''timestamp'', JStr ''2024-01-01T00:00:00Z'')]"

text \<open>A date helper that converts the timestamp of the sample readings, and working
  write clients of the two write types.\<close>

definition sample_dates :: "json \<Rightarrow> bool" where
  "sample_dates v = (v = JStr ''2024-01-01T00:00:00Z'')"

definition sync_sink :: sink where
  "sync_sink = \<lparr>synchronous = True, accepting = True, converts = sample_dates, written = []\<rparr>"

definition async_sink :: sink where
  "async_sink = \<lparr>synchronous = False, accepting = True, converts = sample_dates, written = []\<rparr>"

definition api_state0 :: api_state where
  "api_state0 = \<lparr>write_api = sync_sink, stdout = []\<rparr>"


definition main_state0 :: main_state where
  "main_state0 = (main_initial ''electrolyzer_data'')\<lparr>latest_data := reading (1/4) 1 75\<rparr>"

text \<open>Readings that lack the conductivity, that carry a timestamp no parser accepts, and
  that carry no timestamp.\<close>

definition reading_without_conductivity :: json where
  "reading_without_conductivity =
     JDict [(''temperature'', JNum 75), (''voltage'', JNum (3/2)), (''current'', JNum 550),
            (''timestamp'', JStr ''2024-01-01T00:00:00Z'')]"

definition reading_bad_timestamp :: json where
  "reading_bad_timestamp =
     JDict [(''temperature'', JNum 75), (''voltage'', JNum (3/2)), (''current'', JNum 550),
            (''conductivity'', JNum (1/4)), (''timestamp'', JStr ''yesterday'')]"

definition reading_without_timestamp :: json where
  "reading_without_timestamp =
     JDict [(''temperature'', JNum 75), (''voltage'', JNum (3/2)), (''current'', JNum 550),
            (''conductivity'', JNum (1/4))]"

text \<open>A world for the sample runs: every library call succeeds, the sink answers, and
  the parsers are given on the strings the runs can meet.\<close>

definition world0 :: world where
  "world0 =
     \<lparr>py_int = map_of [(''1883'', 1883)],
      fromisoformat = map_of [(''2024-01-01T00:00:00+00:00'', 1704067200)],
      influx_ctor = (\<lambda>attempt. None),
      write_api_ctor = (\<lambda>attempt. None),
      mqtt_connect = (\<lambda>attempt. None),
      sink_reachable = True,
      write_accepted = True,
      date_helper = sample_dates\<rparr>"

text \<open>The globals of \<^verbatim>\<open>electrolyzer_backend.py\<close> with a write API in place.\<close>

definition electro_state0 :: electro_state where
  "electro_state0 = (electro_initial Map.empty)\<lparr>electro_write_api := Some async_sink\<rparr>"

text \<open>The globals of \<^verbatim>\<open>electrolyzer_backend.py\<close> with the MQTT client connected and an
  InfluxDB client whose server does not answer.\<close>

definition electro_state_down :: electro_state where
  "electro_state_down =
     (electro_initial Map.empty)
       \<lparr>mqtt := Some \<lparr>client_id = ''backend_client'', username = ''admin'', password = ''secret'',
                      broker = Some (''localhost'', 1883), loop_running = True,
                      is_connected = True, subscriptions = [''electrolyzer/sensors'']\<rparr>,
        influx := Some \<lparr>url = ''http://localhost:8086'', token = ''t0ken'', org = ''electrolyzer'',
                        reachable = False, queries = []\<rparr>\<rparr>"

text \<open>The MQTT client and the log that \<^verbatim>\<open>lifespan\<close> leaves when it starts in
  \<open>world0\<close> with an empty environment.\<close>

definition default_client :: mqtt_client where
  "default_client =
     \<lparr>client_id = ''backend_client'', username = ''admin'', password = ''secret'',
      broker = Some (''localhost'', 1883), loop_running = True, is_connected = False,
      subscriptions = []\<rparr>"

definition startup_log :: "log_entry list" where
  "startup_log =
     [Log Error ''INFLUX_TOKEN is not set properly in .env! Please update it.'' NoArg,
      Log Info ''MQTT setup completed.'' NoArg,
      Log Error ''One or more services failed to start. Check logs and .env file.'' NoArg]"
text \<open>
  A rounding for the sample run: round to nearest with 53 significant bits, ties to even,
  as float arithmetic rounds a result in the normal range. \<open>float_exponent\<close> finds the
  binary exponent by halving or doubling, at most as often as its first argument allows.
\<close>

fun float_exponent :: "nat \<Rightarrow> real \<Rightarrow> int" where
  "float_exponent 0 x = 0"
| "float_exponent (Suc n) x =
     (if 2 \<le> \<bar>x\<bar> then float_exponent n (x / 2) + 1
      else if \<bar>x\<bar> < 1 then float_exponent n (x * 2) - 1
      else 0)"

definition round_half_even :: "real \<Rightarrow> int" where
  "round_half_even y =
     (let f = \<lfloor>y\<rfloor> in
      if y - of_int f < 1 / 2 then f
      else if 1 / 2 < y - of_int f then f + 1
      else if even f then f else f + 1)"

definition ulp :: "real \<Rightarrow> real" where
  "ulp x = (let e = float_exponent 1100 x - 52 in
            if 0 \<le> e then 2 ^ nat e else 1 / 2 ^ nat (- e))"

definition binary64 :: "real \<Rightarrow> real" where
  "binary64 x = (if x = 0 then 0 else of_int (round_half_even (x / ulp x)) * ulp x)"

text \<open>A reading without timestamp whose temperature is a list.\<close>

definition reading_list_field :: json where
  "reading_list_field =
     JDict [(''temperature'', JList [JNum 1]), (''voltage'', JNum 1), (''current'', JNum 550),
            (''conductivity'', JNum (1/4))]"

section \<open>Properties\<close>

lemmas thr_defs =
  THRESHOLD_VOLTAGE_HIGH_def THRESHOLD_CONDUCTIVITY_HIGH_def THRESHOLD_TEMP_HIGH_def

lemma try_bind_Inr_iff:
  "try_bind m f = Inr y \<longleftrightarrow> (\<exists>x. m = Inr x \<and> f x = Inr y)"
  by (cases m) simp_all


subsection \<open>Threshold rules of backend\_api.py\<close>

text \<open>
  C1. The rules of \<^verbatim>\<open>on_message\<close> are tried in the order conductivity, voltage,
  temperature and the first one that fires gives the status. Whenever the comparison
  \<^verbatim>\<open>payload["conductivity"] > 0.5\<close> is true the status is the contamination alert,
  whatever the voltage and temperature are (they are not even read); on a reading with
  three numeric fields the status is the one of the first rule that fires, and
  \<^verbatim>\<open>normal\<close> when none does.
\<close>

theorem threshold_priority_order:
  "getitem payload ''conductivity'' = Inr cv \<Longrightarrow>
     (py_gt cv THRESHOLD_CONDUCTIVITY_HIGH = Inr True \<longrightarrow>
        threshold_status payload = Inr ''water_contamination_alert'') \<and>
     (cv = JNum c \<and> getitem payload ''voltage'' = Inr (JNum v) \<and>
      getitem payload ''temperature'' = Inr (JNum t) \<longrightarrow>
        threshold_status payload =
          Inr (if c > THRESHOLD_CONDUCTIVITY_HIGH then ''water_contamination_alert''
               else if v > THRESHOLD_VOLTAGE_HIGH then ''voltage_anomaly_alert''
               else if t > THRESHOLD_TEMP_HIGH then ''overheating_alert''
               else ''normal''))"
  by (simp add: threshold_status_def)

theorem threshold_priority_order_witness:
  "threshold_status (reading (3/4) 3 95) = Inr ''water_contamination_alert'' \<and>
   threshold_status (reading (1/4) 3 95) = Inr ''voltage_anomaly_alert''"
proof -
  have a: "getitem (reading (3/4) 3 95) ''conductivity'' = Inr (JNum (3/4))"
    by (simp add: reading_def)
  have b: "getitem (reading (1/4) 3 95) ''conductivity'' = Inr (JNum (1/4))"
    by (simp add: reading_def)
  have c: "getitem (reading (1/4) 3 95) ''voltage'' = Inr (JNum 3)"
          "getitem (reading (1/4) 3 95) ''temperature'' = Inr (JNum 95)"
    by (simp_all add: reading_def)
  show ?thesis
    using threshold_priority_order [OF a, of "3/4" 0 0]
          threshold_priority_order [OF b, of "1/4" 3 95] c
    by (simp add: thr_defs)
qed

subsection \<open>The score under a threshold alert\<close>








subsection \<open>The score of predict\_anomaly\<close>






text \<open>The sample run: the two float operations on the decision value 1/4 are exact.\<close>

lemma float_exponent_samples:
  "float_exponent 1100 (3/4) = - 1" "float_exponent 1100 75 = 6"
  "float_exponent 1100 (1/10) = - 4"
  by (simp_all add: eval_nat_numeral)


text \<open>Where the exact result is no float it is rounded: one tenth becomes the double
  \<^verbatim>\<open>0x1.999999999999ap-4\<close>.\<close>

lemma binary64_tenth: "binary64 (1/10) = 3602879701896397 / 2 ^ 55"
  by (simp add: binary64_def ulp_def float_exponent_samples round_half_even_def)



subsection \<open>predict\_anomaly without a model\<close>

lemma main_try_block_latest:
  "latest_data (snd (main_try_block st now_iso (Json data))) = data"
  by (simp add: main_try_block_def Let_def logger_main_def split: option.splits sum.splits)

lemma main_on_mqtt_message_latest:
  "latest_data (main_on_mqtt_message st now_iso (Json data)) = data"
proof (cases "main_try_block st now_iso (Json data)")
  case (Pair r st')
  with main_try_block_latest [of st now_iso data] have "latest_data st' = data" by simp
  with Pair show ?thesis
    by (cases r) (simp_all add: main_on_mqtt_message_def logger_main_def)
qed

text \<open>
  C7, as the code has it. With no model loaded, \<^verbatim>\<open>predict_anomaly\<close> does not answer
  with a default assessment: it raises HTTP 400 and leaves the globals alone (the detail
  text is Arabic in the source). What degrades gracefully is the rest:
  \<^verbatim>\<open>load_ai_model\<close> turns a failed fit into \<^verbatim>\<open>model = None\<close>, and
  \<^verbatim>\<open>on_mqtt_message\<close> keeps ingesting, storing each decoded document as the latest
  reading without consulting the model.
\<close>

theorem predict_without_model:
  "model st = None \<Longrightarrow>
     predict_anomaly fl st now_iso =
       (Inl (HTTPException 400 ''No data or model not loaded.''), st) \<and>
     model (load_ai_model st' (Inl e)) = None \<and>
     latest_data (main_on_mqtt_message st now_iso (Json data)) = data \<and>
     model (main_on_mqtt_message st now_iso msg) = None"
proof (intro conjI)
  assume m: "model st = None"
  then show "predict_anomaly fl st now_iso =
               (Inl (HTTPException 400 ''No data or model not loaded.''), st)"
    by (simp add: predict_anomaly_def)
  show "model (load_ai_model st' (Inl e)) = None"
    by (simp add: load_ai_model_def)
  show "latest_data (main_on_mqtt_message st now_iso (Json data)) = data"
    by (rule main_on_mqtt_message_latest)
  have "model (snd (main_try_block st now_iso msg)) = model st"
    by (cases msg)
       (simp_all add: main_try_block_def Let_def logger_main_def split: option.splits sum.splits)
  then show "model (main_on_mqtt_message st now_iso msg) = None"
    using m
    by (cases "main_try_block st now_iso msg"; cases "fst (main_try_block st now_iso msg)")
       (simp_all add: main_on_mqtt_message_def logger_main_def)
qed

theorem predict_without_model_witness:
  "model main_state0 = None \<and>
   predict_anomaly (\<lambda>x. x) main_state0 ''2024-01-01T00:00:01'' =
     (Inl (HTTPException 400 ''No data or model not loaded.''), main_state0) \<and>
   latest_data (main_on_mqtt_message main_state0 ''2024-01-01T00:00:01'' (Json (reading 1 1 75))) =
     reading 1 1 75"
proof -
  have m: "model main_state0 = None"
    by (simp add: main_state0_def main_initial_def)
  show ?thesis
    using m predict_without_model [OF m, of "\<lambda>x. x" "''2024-01-01T00:00:01''"
            main_state0 ValueError "reading 1 1 75" NotJson]
    by simp
qed

text \<open>The claim as the specification states it fails: a reading is there, no model is,
  and the answer is the exception instead of the pair (not anomalous, 100).\<close>

theorem safe_default_counterexample:
  "model main_state0 = None \<and> truthy (latest_data main_state0) \<and>
   fst (predict_anomaly (\<lambda>x. x) main_state0 ''2024-01-01T00:00:01'') =
     Inl (HTTPException 400 ''No data or model not loaded.'')"
  by (simp add: predict_anomaly_def main_state0_def main_initial_def reading_def)

subsection \<open>A payload that is not JSON\<close>

text \<open>
  C3. A payload that is not JSON must be dropped and logged, without stopping the
  ingestion. \<^verbatim>\<open>on_mqtt_message\<close> of \<^verbatim>\<open>main.py\<close> and of
  \<^verbatim>\<open>electrolyzer_backend.py\<close> do that: the exception is caught, one error line is
  logged, and the latest reading is left as it was. \<^verbatim>\<open>on_message\<close> of
  \<^verbatim>\<open>backend_api.py\<close> has no handler: \<^verbatim>\<open>json.JSONDecodeError\<close> leaves the callback
  and nothing is logged.
\<close>

theorem on_message_not_json:
  "on_message st now NotJson = (Some JSONDecodeError, st) \<and>
   main_on_mqtt_message st1 now_iso NotJson =
     logger_main st1 (Log Error ''Failed to process MQTT message: '' (ErrArg JSONDecodeError)) \<and>
   latest_data (main_on_mqtt_message st1 now_iso NotJson) = latest_data st1 \<and>
   on_mqtt_message w st2 t t' NotJson =
     logger st2 (Log Error ''Invalid JSON in MQTT payload: '' (ErrArg JSONDecodeError))"
  by (simp add: on_message_def main_on_mqtt_message_def main_try_block_def logger_main_def
        on_mqtt_message_def electro_try_block_def)

subsection \<open>A reading without a field that a rule needs\<close>

text \<open>
  C5. A rule whose field is missing must count as not triggered.
  \<^verbatim>\<open>electrolyzer_backend.py\<close> reads the fields with \<^verbatim>\<open>data.get(..., 0)\<close> and finds the
  reading without conductivity normal; \<^verbatim>\<open>backend_api.py\<close> reads
  \<^verbatim>\<open>payload["conductivity"]\<close> and raises \<^verbatim>\<open>KeyError\<close>, which leaves \<^verbatim>\<open>on_message\<close>.
\<close>

theorem threshold_status_missing_field:
  "threshold_status reading_without_conductivity = Inl (KeyError ''conductivity'') \<and>
   fst (on_message api_state0 0 (Json reading_without_conductivity)) =
     Some (KeyError ''conductivity'') \<and>
   predicted_status reading_without_conductivity = Inr (''normal'', 100)"
proof -
  have a: "threshold_status reading_without_conductivity = Inl (KeyError ''conductivity'')"
    by (simp add: threshold_status_def reading_without_conductivity_def)
  have b: "predicted_status reading_without_conductivity = Inr (''normal'', 100)"
    by (simp add: predicted_status_def reading_without_conductivity_def)
  show ?thesis
    by (simp add: a b on_message_def)
qed

subsection \<open>The timestamp of a reading in electrolyzer\_backend.py\<close>

lemma in_line_supported: "in_line v \<Longrightarrow> \<not> unsupported v"
  by (cases v) simp_all

lemma assessment_point_line: "to_line_protocol conv (assessment_point predicted score t) = None"
  by (simp add: to_line_protocol_def assessment_point_def)

text \<open>With a falsy timestamp, a sink that takes writes and field values that the client
  puts into the line, the sensor point is written with the clock's time; the steps that
  follow only add to the sink.\<close>

lemma absent_timestamp_written:
  assumes api: "electro_write_api st = Some api" "accepting api"
    and ts: "dict_get data ''timestamp'' JNull = Inr ts" "\<not> truthy ts"
    and fs: "dict_get data ''temperature'' (JNum 0) = Inr temperature"
            "dict_get data ''voltage'' (JNum 0) = Inr voltage"
            "dict_get data ''current'' (JNum 0) = Inr current"
            "dict_get data ''conductivity'' (JNum 0) = Inr conductivity"
    and ok: "in_line temperature" "in_line voltage" "in_line current" "in_line conductivity"
  shows "\<exists>api' rest.
           electro_write_api (on_mqtt_message w st now now' (Json data)) = Some api' \<and>
           written api' = written api @
             (electro_bucket st,
              \<lparr>measurement = ''electrolyzer_metrics'', tags = [(''host'', ''electrolyzer_1'')],
               field_values = [(''temperature'', temperature), (''voltage'', voltage),
                               (''current'', current), (''conductivity'', conductivity)],
               point_time = TimeDatetime now\<rparr>) # rest"
proof -
  let ?p = "\<lparr>measurement = ''electrolyzer_metrics'', tags = [(''host'', ''electrolyzer_1'')],
             field_values = [(''temperature'', temperature), (''voltage'', voltage),
                             (''current'', current), (''conductivity'', conductivity)],
             point_time = TimeDatetime now\<rparr>"
  have p: "metrics_point data now = Inr ?p"
    by (simp add: metrics_point_def fs)
  have line: "to_line_protocol (converts api) ?p = None"
    using ok by (simp add: to_line_protocol_def in_line_supported)
  let ?st1 = "logger st (Log Info ''Received sensor data: '' (JsonArg data))"
  let ?api1 = "api\<lparr>written := written api @ [(electro_bucket st, ?p)]\<rparr>"
  let ?st2 = "logger (?st1\<lparr>electro_write_api := Some ?api1\<rparr>)
                (Log Info ''Sensor data written to InfluxDB.'' NoArg)"
  have st1: "electro_write_api ?st1 = Some api" "electro_bucket ?st1 = electro_bucket st"
    using api by (simp_all add: logger_def)
  have pt: "parse_point_time w now ts = Inr now"
    using ts(2) by (simp add: parse_point_time_def)
  have w1: "api_write api (electro_bucket st) ?p = Inr ?api1"
    using api(2) line by (simp add: api_write_def)
  have first: "try_bind (dict_get data ''timestamp'' JNull) (\<lambda>ts_str.
                 try_bind (parse_point_time w now ts_str) (\<lambda>t.
                 try_bind (metrics_point data t) (\<lambda>p.
                 api_write api (electro_bucket ?st1) p))) = Inr ?api1"
    by (simp add: ts(1) pt p st1(2) w1)
  let ?second = "try_bind (predicted_status data) (\<lambda>a.
                   api_write ?api1 (electro_bucket ?st2) (assessment_point (fst a) (snd a) now'))"
  have blk: "electro_try_block w st now now' (Json data) =
               (case ?second of
                  Inl e \<Rightarrow> (Some e, ?st2)
                | Inr api2 \<Rightarrow>
                    (None, logger (?st2\<lparr>electro_write_api := Some api2\<rparr>)
                             (Log Info ''AI prediction written to InfluxDB.'' NoArg)))"
    unfolding electro_try_block_def by (simp add: st1(1) first Let_def)
  show ?thesis
  proof (cases ?second)
    case (Inl e)
    then have "electro_try_block w st now now' (Json data) = (Some e, ?st2)"
      using blk by simp
    then have "electro_write_api (on_mqtt_message w st now now' (Json data)) = Some ?api1"
      by (simp add: on_mqtt_message_def logger_def)
    moreover have "written ?api1 = written api @ (electro_bucket st, ?p) # []"
      by simp
    ultimately show ?thesis
      by blast
  next
    case (Inr api2)
    then obtain a where
      a: "api_write ?api1 (electro_bucket ?st2) (assessment_point (fst a) (snd a) now') = Inr api2"
      by (auto simp: try_bind_Inr_iff)
    have "electro_try_block w st now now' (Json data) =
            (None, logger (?st2\<lparr>electro_write_api := Some api2\<rparr>)
                     (Log Info ''AI prediction written to InfluxDB.'' NoArg))"
      using blk Inr by simp
    then have r: "electro_write_api (on_mqtt_message w st now now' (Json data)) = Some api2"
      by (simp add: on_mqtt_message_def logger_def)
    have "written api2 = written api @ (electro_bucket st, ?p) #
            [(electro_bucket ?st2, assessment_point (fst a) (snd a) now')]"
      using a api(2) by (auto simp: api_write_def assessment_point_line)
    with r show ?thesis
      by blast
  qed
qed

text \<open>A non-empty string that \<^verbatim>\<open>fromisoformat\<close> rejects ends the handling of the
  message in the \<^verbatim>\<open>except ValueError\<close> clause, before anything is written.\<close>

lemma unparsable_timestamp_dropped:
  assumes api: "electro_write_api st = Some api"
    and ts: "dict_get data ''timestamp'' JNull = Inr (JStr s)" "s \<noteq> []"
    and bad: "fromisoformat w (if CHR ''Z'' \<in> set s then replace_Z s else s) = None"
  shows "on_mqtt_message w st now now' (Json data) =
           logger (logger st (Log Info ''Received sensor data: '' (JsonArg data)))
             (Log Error ''Invalid timestamp in data: '' (ErrArg ValueError))"
proof -
  let ?st1 = "logger st (Log Info ''Received sensor data: '' (JsonArg data))"
  have st1: "electro_write_api ?st1 = Some api"
    using api by (simp add: logger_def)
  have pt: "parse_point_time w now (JStr s) = Inl ValueError"
    using ts(2) bad by (simp add: parse_point_time_def Let_def)
  have "electro_try_block w st now now' (Json data) = (Some ValueError, ?st1)"
    unfolding electro_try_block_def by (simp add: st1 ts(1) pt Let_def)
  then show ?thesis
    by (simp add: on_mqtt_message_def)
qed

text \<open>
  C6, as the code has it. With a write API in place: when the timestamp of the document
  is absent (or falsy: null, empty, zero), the sink takes writes and each of the four
  field values is a finite number, a boolean or a string (an absent field counts as 0),
  the sensor point is written with the current clock reading \<open>now\<close> as its time, so
  the message is not rejected. When the timestamp is a
  non-empty string that \<^verbatim>\<open>fromisoformat\<close> rejects, the message is dropped: an error
  line \<^verbatim>\<open>Invalid timestamp in data\<close> is logged and nothing is written. Nothing marks
  a reading as carrying a synthesized timestamp.
\<close>

theorem timestamp_absent_or_unparsable:
  "electro_write_api st = Some api \<Longrightarrow>
     (accepting api \<and> dict_get data ''timestamp'' JNull = Inr ts \<and> \<not> truthy ts \<and>
      dict_get data ''temperature'' (JNum 0) = Inr temperature \<and> in_line temperature \<and>
      dict_get data ''voltage'' (JNum 0) = Inr voltage \<and> in_line voltage \<and>
      dict_get data ''current'' (JNum 0) = Inr current \<and> in_line current \<and>
      dict_get data ''conductivity'' (JNum 0) = Inr conductivity \<and> in_line conductivity \<longrightarrow>
        (\<exists>api' rest.
           electro_write_api (on_mqtt_message w st now now' (Json data)) = Some api' \<and>
           written api' = written api @
             (electro_bucket st,
              \<lparr>measurement = ''electrolyzer_metrics'', tags = [(''host'', ''electrolyzer_1'')],
               field_values = [(''temperature'', temperature), (''voltage'', voltage),
                               (''current'', current), (''conductivity'', conductivity)],
               point_time = TimeDatetime now\<rparr>) # rest)) \<and>
     (dict_get data ''timestamp'' JNull = Inr (JStr s) \<and> s \<noteq> [] \<and>
      fromisoformat w (if CHR ''Z'' \<in> set s then replace_Z s else s) = None \<longrightarrow>
        on_mqtt_message w st now now' (Json data) =
          logger (logger st (Log Info ''Received sensor data: '' (JsonArg data)))
            (Log Error ''Invalid timestamp in data: '' (ErrArg ValueError)))"
  using absent_timestamp_written [of st api data ts temperature voltage current conductivity
          w now now']
        unparsable_timestamp_dropped [of st api data s w now now']
  by blast

theorem timestamp_absent_or_unparsable_witness:
  "(\<exists>api' rest.
      electro_write_api (on_mqtt_message world0 electro_state0 10 11 (Json reading_without_timestamp)) =
        Some api' \<and>
      written api' =
        (''electrolyzer_data'',
         \<lparr>measurement = ''electrolyzer_metrics'', tags = [(''host'', ''electrolyzer_1'')],
          field_values = [(''temperature'', JNum 75), (''voltage'', JNum (3/2)),
                          (''current'', JNum 550), (''conductivity'', JNum (1/4))],
          point_time = TimeDatetime 10\<rparr>) # rest) \<and>
   on_mqtt_message world0 electro_state0 10 11 (Json reading_bad_timestamp) =
     logger (logger electro_state0 (Log Info ''Received sensor data: '' (JsonArg reading_bad_timestamp)))
       (Log Error ''Invalid timestamp in data: '' (ErrArg ValueError))"
proof -
  have a: "electro_write_api electro_state0 = Some async_sink"
    by (simp add: electro_state0_def)
  have b: "electro_bucket electro_state0 = ''electrolyzer_data''" "accepting async_sink"
    "written async_sink = []"
    by (simp_all add: electro_state0_def electro_initial_def getenv_def async_sink_def)
  have c: "dict_get reading_without_timestamp ''timestamp'' JNull = Inr JNull"
    "dict_get reading_without_timestamp ''temperature'' (JNum 0) = Inr (JNum 75)"
    "dict_get reading_without_timestamp ''voltage'' (JNum 0) = Inr (JNum (3/2))"
    "dict_get reading_without_timestamp ''current'' (JNum 0) = Inr (JNum 550)"
    "dict_get reading_without_timestamp ''conductivity'' (JNum 0) = Inr (JNum (1/4))"
    by (simp_all add: reading_without_timestamp_def)
  have d: "dict_get reading_bad_timestamp ''timestamp'' JNull = Inr (JStr ''yesterday'')"
    by (simp add: reading_bad_timestamp_def)
  have e: "fromisoformat world0 (if CHR ''Z'' \<in> set ''yesterday'' then replace_Z ''yesterday''
                                 else ''yesterday'') = None"
    by (simp add: world0_def)
  show ?thesis
    using timestamp_absent_or_unparsable [OF a, of reading_without_timestamp JNull
            "JNum 75" "JNum (3/2)" "JNum 550" "JNum (1/4)" world0 10 11 "''x''"]
          timestamp_absent_or_unparsable [OF a, of reading_bad_timestamp JNull
            "JNum 75" "JNum (3/2)" "JNum 550" "JNum (1/4)" world0 10 11 "''yesterday''"]
          b c d e
    by simp
qed

text \<open>The claim as the specification states it fails on a timestamp that does not
  parse: the message is rejected, the sink stays empty and the error is logged.\<close>

lemma bad_timestamp_raises: "parse_point_time world0 now (JStr ''yesterday'') = Inl ValueError"
  by (simp add: parse_point_time_def world0_def)

lemma bad_timestamp_get:
  "dict_get reading_bad_timestamp ''timestamp'' JNull = Inr (JStr ''yesterday'')"
  by (simp add: reading_bad_timestamp_def)

theorem unparsable_timestamp_counterexample:
  "electro_write_api (on_mqtt_message world0 electro_state0 10 11 (Json reading_bad_timestamp)) =
     Some async_sink \<and>
   written async_sink = [] \<and>
   electro_log (on_mqtt_message world0 electro_state0 10 11 (Json reading_bad_timestamp)) =
     [Log Info ''Received sensor data: '' (JsonArg reading_bad_timestamp),
      Log Error ''Invalid timestamp in data: '' (ErrArg ValueError)]"
  by (simp add: on_mqtt_message_def electro_try_block_def bad_timestamp_raises bad_timestamp_get
        logger_def electro_state0_def electro_initial_def async_sink_def)

text \<open>A field value that the write client cannot put into a line ends in the same
  clause: \<^verbatim>\<open>write\<close> raises \<^verbatim>\<open>ValueError\<close> and the message is dropped.\<close>

lemma list_field_dropped:
  "on_mqtt_message world0 electro_state0 10 11 (Json reading_list_field) =
     logger (logger electro_state0 (Log Info ''Received sensor data: '' (JsonArg reading_list_field)))
       (Log Error ''Invalid timestamp in data: '' (ErrArg ValueError))"
proof -
  have a: "dict_get reading_list_field ''timestamp'' JNull = Inr JNull"
    by (simp add: reading_list_field_def)
  have b: "metrics_point reading_list_field 10 =
             Inr \<lparr>measurement = ''electrolyzer_metrics'', tags = [(''host'', ''electrolyzer_1'')],
                  field_values = [(''temperature'', JList [JNum 1]), (''voltage'', JNum 1),
                                  (''current'', JNum 550), (''conductivity'', JNum (1/4))],
                  point_time = TimeDatetime 10\<rparr>"
    by (simp add: metrics_point_def reading_list_field_def)
  have "electro_try_block world0 electro_state0 10 11 (Json reading_list_field) =
          (Some ValueError,
           logger electro_state0 (Log Info ''Received sensor data: '' (JsonArg reading_list_field)))"
    unfolding electro_try_block_def
    by (simp add: a b parse_point_time_def api_write_def to_line_protocol_def logger_def
          electro_state0_def)
  then show ?thesis
    by (simp add: on_mqtt_message_def)
qed

subsection \<open>The assessment of backend\_api.py\<close>

lemma complete_reading_status:
  "threshold_status (reading (1/4) 1 95) = Inr ''overheating_alert''"
  by (simp add: threshold_status_def reading_def thr_defs)

lemma complete_reading_point:
  "sensor_point (reading c v t) =
     Inr \<lparr>measurement = ''electrolyzer_metrics'', tags = [(''host'', ''electrolyzer_1'')],
          field_values = [(''temperature'', JNum t), (''voltage'', JNum v),
                          (''current'', JNum 550), (''conductivity'', JNum c)],
          point_time = TimeOfJson (JStr ''2024-01-01T00:00:00Z'')\<rparr>"
  by (simp add: sensor_point_def reading_def)

lemma ai_point_refused: "to_line_protocol conv (ai_point predicted score now) = Some ValueError"
  by (simp add: to_line_protocol_def ai_point_def)

lemma ai_point_raises: "api_write s bucket (ai_point predicted score now) = Inl ValueError"
  by (simp add: api_write_def ai_point_refused)

lemma sensor_point_written:
  "api_write sync_sink bucket
     \<lparr>measurement = ''electrolyzer_metrics'', tags = [(''host'', ''electrolyzer_1'')],
      field_values = [(''temperature'', JNum t), (''voltage'', JNum v),
                      (''current'', JNum 550), (''conductivity'', JNum c)],
      point_time = TimeOfJson (JStr ''2024-01-01T00:00:00Z'')\<rparr> =
   Inr (sync_sink\<lparr>written :=
     [(bucket,
       \<lparr>measurement = ''electrolyzer_metrics'', tags = [(''host'', ''electrolyzer_1'')],
        field_values = [(''temperature'', JNum t), (''voltage'', JNum v),
                        (''current'', JNum 550), (''conductivity'', JNum c)],
        point_time = TimeOfJson (JStr ''2024-01-01T00:00:00Z'')\<rparr>)]\<rparr>)"
  by (simp add: api_write_def to_line_protocol_def sample_dates_def sync_sink_def)

text \<open>The sibling handler on the reading without conductivity: both points are
  written, the assessment is normal with score 100.\<close>

lemma sibling_assesses:
  "electro_write_api
     (on_mqtt_message world0 electro_state0 10 11 (Json reading_without_conductivity)) =
   Some (async_sink\<lparr>written :=
     [(''electrolyzer_data'',
       \<lparr>measurement = ''electrolyzer_metrics'', tags = [(''host'', ''electrolyzer_1'')],
        field_values = [(''temperature'', JNum 75), (''voltage'', JNum (3/2)),
                        (''current'', JNum 550), (''conductivity'', JNum 0)],
        point_time = TimeDatetime 1704067200\<rparr>),
      (''electrolyzer_data'', assessment_point ''normal'' 100 11)]\<rparr>)"
proof -
  have a: "dict_get reading_without_conductivity ''timestamp'' JNull =
             Inr (JStr ''2024-01-01T00:00:00Z'')"
    by (simp add: reading_without_conductivity_def)
  have b: "parse_point_time world0 10 (JStr ''2024-01-01T00:00:00Z'') = Inr 1704067200"
    by (simp add: parse_point_time_def replace_Z_def world0_def)
  have c: "metrics_point reading_without_conductivity 1704067200 =
             Inr \<lparr>measurement = ''electrolyzer_metrics'', tags = [(''host'', ''electrolyzer_1'')],
                  field_values = [(''temperature'', JNum 75), (''voltage'', JNum (3/2)),
                                  (''current'', JNum 550), (''conductivity'', JNum 0)],
                  point_time = TimeDatetime 1704067200\<rparr>"
    by (simp add: metrics_point_def reading_without_conductivity_def)
  have d: "predicted_status reading_without_conductivity = Inr (''normal'', 100)"
    by (simp add: predicted_status_def reading_without_conductivity_def)
  have e: "electro_bucket electro_state0 = ''electrolyzer_data''"
    by (simp add: electro_state0_def electro_initial_def getenv_def)
  have w1: "api_write async_sink bucket
              \<lparr>measurement = ''electrolyzer_metrics'', tags = [(''host'', ''electrolyzer_1'')],
               field_values = [(''temperature'', JNum 75), (''voltage'', JNum (3/2)),
                               (''current'', JNum 550), (''conductivity'', JNum 0)],
               point_time = TimeDatetime 1704067200\<rparr> =
            Inr (async_sink\<lparr>written :=
              [(bucket,
                \<lparr>measurement = ''electrolyzer_metrics'', tags = [(''host'', ''electrolyzer_1'')],
                 field_values = [(''temperature'', JNum 75), (''voltage'', JNum (3/2)),
                                 (''current'', JNum 550), (''conductivity'', JNum 0)],
                 point_time = TimeDatetime 1704067200\<rparr>)]\<rparr>)" for bucket
    by (simp add: api_write_def to_line_protocol_def async_sink_def)
  have w2: "api_write (async_sink\<lparr>written := ps\<rparr>) bucket (assessment_point predicted score t) =
            Inr (async_sink\<lparr>written := ps @ [(bucket, assessment_point predicted score t)]\<rparr>)"
    for ps bucket predicted score t
    by (simp add: api_write_def assessment_point_line async_sink_def)
  have "electro_try_block world0 electro_state0 10 11 (Json reading_without_conductivity) =
          (None,
           logger (logger ((logger electro_state0
                     (Log Info ''Received sensor data: '' (JsonArg reading_without_conductivity)))
                     \<lparr>electro_write_api := Some (async_sink\<lparr>written :=
                        [(''electrolyzer_data'',
                          \<lparr>measurement = ''electrolyzer_metrics'',
                           tags = [(''host'', ''electrolyzer_1'')],
                           field_values = [(''temperature'', JNum 75), (''voltage'', JNum (3/2)),
                                           (''current'', JNum 550), (''conductivity'', JNum 0)],
                           point_time = TimeDatetime 1704067200\<rparr>),
                         (''electrolyzer_data'', assessment_point ''normal'' 100 11)]\<rparr>)\<rparr>)
                     (Log Info ''Sensor data written to InfluxDB.'' NoArg))
             (Log Info ''AI prediction written to InfluxDB.'' NoArg))"
    unfolding electro_try_block_def
    by (simp add: a b c d e w1 w2 logger_def electro_state0_def electro_initial_def getenv_def)
  then show ?thesis
    by (simp add: on_mqtt_message_def logger_def)
qed

text \<open>
  C10. Every decoded message is to get an assessment that is one of two pairs,
  \<^verbatim>\<open>Normal\<close> with 99 or \<^verbatim>\<open>Anomaly Detected\<close> with 45. \<^verbatim>\<open>on_message\<close> of
  \<^verbatim>\<open>backend_api.py\<close> does not get that far on the decoded reading without
  conductivity: \<^verbatim>\<open>KeyError\<close> leaves the callback after the first print, and no
  assessment is made or written, where the sibling handler assesses the same reading. On
  a complete reading the pair is computed, but the assessment point carries the float
  \<^verbatim>\<open>time.time()\<close>: the write client refuses it with \<^verbatim>\<open>ValueError\<close>, so only the
  sensor point reaches the sink.
\<close>

theorem on_message_no_assessment:
  "loads_decode (Json reading_without_conductivity) = Inr reading_without_conductivity \<and>
   on_message api_state0 now (Json reading_without_conductivity) =
     (Some (KeyError ''conductivity''),
      print api_state0 [Log Print ''Received: '' (JsonArg reading_without_conductivity)]) \<and>
   written (write_api (snd (on_message api_state0 now (Json reading_without_conductivity)))) = [] \<and>
   electro_write_api
     (on_mqtt_message world0 electro_state0 10 11 (Json reading_without_conductivity)) =
   Some (async_sink\<lparr>written :=
     [(''electrolyzer_data'',
       \<lparr>measurement = ''electrolyzer_metrics'', tags = [(''host'', ''electrolyzer_1'')],
        field_values = [(''temperature'', JNum 75), (''voltage'', JNum (3/2)),
                        (''current'', JNum 550), (''conductivity'', JNum 0)],
        point_time = TimeDatetime 1704067200\<rparr>),
      (''electrolyzer_data'', assessment_point ''normal'' 100 11)]\<rparr>) \<and>
   on_message api_state0 now (Json (reading (1/4) 1 95)) =
     (Some ValueError,
      \<lparr>write_api = sync_sink\<lparr>written :=
         [(INFLUX_BUCKET,
           \<lparr>measurement = ''electrolyzer_metrics'', tags = [(''host'', ''electrolyzer_1'')],
            field_values = [(''temperature'', JNum 95), (''voltage'', JNum 1),
                            (''current'', JNum 550), (''conductivity'', JNum (1/4))],
            point_time = TimeOfJson (JStr ''2024-01-01T00:00:00Z'')\<rparr>)]\<rparr>,
       stdout = [Log Print ''Received: '' (JsonArg (reading (1/4) 1 95)),
                 Log Print ''ALERT: High temperature detected. Cooling issue!'' NoArg]\<rparr>)"
proof -
  have a: "threshold_status reading_without_conductivity = Inl (KeyError ''conductivity'')"
    by (simp add: threshold_status_def reading_without_conductivity_def)
  have b: "on_message api_state0 now (Json reading_without_conductivity) =
     (Some (KeyError ''conductivity''),
      print api_state0 [Log Print ''Received: '' (JsonArg reading_without_conductivity)])"
    by (simp add: on_message_def a)
  have c: "written (write_api (print api_state0 ls)) = []" for ls
    by (simp add: print_def api_state0_def sync_sink_def)
  have d: "on_message api_state0 now (Json (reading (1/4) 1 95)) =
     (Some ValueError,
      \<lparr>write_api = sync_sink\<lparr>written :=
         [(INFLUX_BUCKET,
           \<lparr>measurement = ''electrolyzer_metrics'', tags = [(''host'', ''electrolyzer_1'')],
            field_values = [(''temperature'', JNum 95), (''voltage'', JNum 1),
                            (''current'', JNum 550), (''conductivity'', JNum (1/4))],
            point_time = TimeOfJson (JStr ''2024-01-01T00:00:00Z'')\<rparr>)]\<rparr>,
       stdout = [Log Print ''Received: '' (JsonArg (reading (1/4) 1 95)),
                 Log Print ''ALERT: High temperature detected. Cooling issue!'' NoArg]\<rparr>)"
    unfolding on_message_def
    by (simp add: complete_reading_status complete_reading_point sensor_point_written
          ai_point_raises api_state0_def print_def alert_lines_def ai_placeholder_def)
  show ?thesis
    by (simp add: b c d sibling_assesses)
qed

subsection \<open>health\_check\<close>

lemma health_check_fields:
  "fst (health_check st) =
     [(''status'', if (\<exists>c. influx st = Some c \<and> reachable c) \<and>
                      (\<exists>c. mqtt st = Some c \<and> is_connected c) then ''ok'' else ''degraded''),
      (''influxdb'', if (\<exists>c. influx st = Some c \<and> reachable c) then ''connected''
                     else ''not_connected''),
      (''mqtt'', if (\<exists>c. mqtt st = Some c \<and> is_connected c) then ''connected''
                 else ''not_connected'')]"
  by (cases "influx st"; cases "mqtt st")
     (simp_all add: health_check_def Let_def)

lemma health_check_effect:
  "snd (health_check st) =
     (case influx st of
        None \<Rightarrow> st
      | Some c \<Rightarrow>
          let st1 = st\<lparr>influx := Some (c\<lparr>queries := queries c @
                         [FromBucketLimit (electro_bucket st) 1]\<rparr>)\<rparr> in
          if reachable c then st1
          else logger st1 (Log Warning ''InfluxDB health check failed: '' (ErrArg ApiException)))"
  by (cases "influx st") (simp_all add: health_check_def Let_def)

text \<open>
  C8, as the code has it. \<^verbatim>\<open>health_check\<close> reports \<^verbatim>\<open>ok\<close> exactly when it reports
  both \<^verbatim>\<open>influxdb\<close> and \<^verbatim>\<open>mqtt\<close> as \<^verbatim>\<open>connected\<close>, and \<^verbatim>\<open>degraded\<close> in every other
  case. Each part has the two values \<^verbatim>\<open>connected\<close> and \<^verbatim>\<open>not_connected\<close>: \<^verbatim>\<open>mqtt\<close>
  is connected when a client exists and says so, \<^verbatim>\<open>influxdb\<close> when a client exists and
  the query that the check sends through it is answered. The check is not free of
  effects: with a client in place every call sends that query and waits for it, and a
  query that fails is logged as a warning.
\<close>

theorem health_check_overall:
  "map_of (fst (health_check st)) ''status'' =
     Some (if map_of (fst (health_check st)) ''influxdb'' = Some ''connected'' \<and>
              map_of (fst (health_check st)) ''mqtt'' = Some ''connected''
           then ''ok'' else ''degraded'') \<and>
   (map_of (fst (health_check st)) ''influxdb'' = Some ''connected'' \<longleftrightarrow>
      (\<exists>c. influx st = Some c \<and> reachable c)) \<and>
   (map_of (fst (health_check st)) ''mqtt'' = Some ''connected'' \<longleftrightarrow>
      (\<exists>c. mqtt st = Some c \<and> is_connected c)) \<and>
   (influx st = Some c \<longrightarrow>
      (\<exists>c'. influx (snd (health_check st)) = Some c' \<and>
            queries c' = queries c @ [FromBucketLimit (electro_bucket st) 1]) \<and>
      electro_log (snd (health_check st)) =
        electro_log st @
          (if reachable c then []
           else [Log Warning ''InfluxDB health check failed: '' (ErrArg ApiException)]))"
  unfolding health_check_fields health_check_effect
  by (simp add: logger_def Let_def)

theorem health_check_overall_witness:
  "(\<exists>c'. influx (snd (health_check electro_state_down)) = Some c' \<and>
          queries c' = [FromBucketLimit ''electrolyzer_data'' 1]) \<and>
   electro_log (snd (health_check electro_state_down)) =
     [Log Warning ''InfluxDB health check failed: '' (ErrArg ApiException)]"
  using health_check_overall [of electro_state_down
          "\<lparr>url = ''http://localhost:8086'', token = ''t0ken'', org = ''electrolyzer'',
            reachable = False, queries = []\<rparr>"]
  by (simp add: electro_state_down_def electro_initial_def getenv_def)

text \<open>The claim as the specification states it fails: on a state whose sink does not
  answer, the check has sent a query and written a log line.\<close>

theorem health_check_pure_counterexample:
  "electro_log electro_state_down = [] \<and>
   electro_log (snd (health_check electro_state_down)) =
     [Log Warning ''InfluxDB health check failed: '' (ErrArg ApiException)] \<and>
   influx (snd (health_check electro_state_down)) =
     Some \<lparr>url = ''http://localhost:8086'', token = ''t0ken'', org = ''electrolyzer'',
           reachable = False, queries = [FromBucketLimit ''electrolyzer_data'' 1]\<rparr>"
  by (simp add: health_check_effect electro_state_down_def electro_initial_def getenv_def
        logger_def)

subsection \<open>Startup with configuration missing\<close>

text \<open>The retry loop of \<^verbatim>\<open>setup_mqtt\<close> leaves a client with the credentials it was
  given, whether it connects or gives up.\<close>

lemma mqtt_attempts_credentials:
  "mqtt st = Some c0 \<Longrightarrow> username c0 = username c \<Longrightarrow> password c0 = password c \<Longrightarrow>
     \<exists>c'. mqtt (snd (mqtt_attempts w addr c n attempt st)) = Some c' \<and>
          username c' = username c \<and> password c' = password c"
proof (induction n arbitrary: attempt st)
  case 0
  then show ?case by (simp add: logger_def)
next
  case (Suc n)
  show ?case
  proof (cases "mqtt_connect w attempt")
    case None
    then show ?thesis by (simp add: logger_def)
  next
    case (Some e)
    let ?st1 = "logger st (Log Warning ''MQTT setup failed'' (AttemptArg (attempt + 1) e))"
    have a: "mqtt ?st1 = Some c0" "mqtt (sleep ?st1 5) = Some c0"
      using Suc.prems(1) by (simp_all add: logger_def sleep_def)
    show ?thesis
    proof (cases "attempt < 4")
      case True
      with Some Suc.IH [OF a(2) Suc.prems(2) Suc.prems(3), of "attempt + 1"]
      show ?thesis by (simp add: Let_def)
    next
      case False
      with Some Suc.IH [OF a(1) Suc.prems(2) Suc.prems(3), of "attempt + 1"]
      show ?thesis by (simp add: Let_def)
    qed
  qed
qed

lemma setup_mqtt_port_ok:
  assumes "getenv_port (py_int w) e = Inr port"
  shows "\<exists>b c'. fst (setup_mqtt w e st) = Inr b \<and>
           mqtt (snd (setup_mqtt w e st)) = Some c' \<and>
           username c' = getenv e ''MQTT_USER'' ''admin'' \<and>
           password c' = getenv e ''MQTT_PASS'' ''secret''"
proof -
  let ?c = "\<lparr>client_id = ''backend_client'', username = getenv e ''MQTT_USER'' ''admin'',
             password = getenv e ''MQTT_PASS'' ''secret'', broker = None, loop_running = False,
             is_connected = False, subscriptions = []\<rparr>"
  let ?r = "mqtt_attempts w (getenv e ''MQTT_BROKER'' ''localhost'', port) ?c 5 0
              (st\<lparr>mqtt := Some ?c\<rparr>)"
  have r: "setup_mqtt w e st = (Inr (fst ?r), snd ?r)"
    using assms by (simp add: setup_mqtt_def Let_def)
  have "\<exists>c'. mqtt (snd ?r) = Some c' \<and> username c' = username ?c \<and> password c' = password ?c"
    using mqtt_attempts_credentials [of "st\<lparr>mqtt := Some ?c\<rparr>" ?c ?c w
            "(getenv e ''MQTT_BROKER'' ''localhost'', port)" 5 0]
    by simp
  then show ?thesis
    unfolding r by simp
qed

lemma lifespan_startup_yields:
  assumes "getenv_port (py_int w) e = Inr port"
  shows "fst (lifespan_startup w e st) = None"
proof -
  obtain b where "fst (setup_mqtt w e (snd (setup_influxdb w e st))) = Inr b"
    using setup_mqtt_port_ok [OF assms] by blast
  then show ?thesis
    by (simp add: lifespan_startup_def Let_def)
qed

lemma lifespan_startup_mqtt:
  assumes "getenv_port (py_int w) e = Inr port"
  shows "\<exists>c'. mqtt (snd (lifespan_startup w e st)) = Some c' \<and>
           username c' = getenv e ''MQTT_USER'' ''admin'' \<and>
           password c' = getenv e ''MQTT_PASS'' ''secret''"
proof -
  obtain b c' where h: "fst (setup_mqtt w e (snd (setup_influxdb w e st))) = Inr b"
     "mqtt (snd (setup_mqtt w e (snd (setup_influxdb w e st)))) = Some c'"
     "username c' = getenv e ''MQTT_USER'' ''admin''"
     "password c' = getenv e ''MQTT_PASS'' ''secret''"
    using setup_mqtt_port_ok [OF assms] by blast
  then show ?thesis
    by (simp add: lifespan_startup_def Let_def logger_def)
qed

lemma setup_influxdb_no_token:
  assumes "e ''INFLUX_TOKEN'' = None"
  shows "setup_influxdb w e st =
           (False, logger st (Log Error
              ''INFLUX_TOKEN is not set properly in .env! Please update it.'' NoArg))"
  using assms by (simp add: setup_influxdb_def getenv_def)

text \<open>
  C9, as the code has it. No missing setting stops startup. Whenever the MQTT port is
  unset or parses as an int, \<^verbatim>\<open>lifespan\<close> reaches its \<^verbatim>\<open>yield\<close> and the application
  serves. A missing \<^verbatim>\<open>INFLUX_TOKEN\<close> makes \<^verbatim>\<open>setup_influxdb\<close> log an error and return
  \<^verbatim>\<open>False\<close> without creating a client; missing MQTT credentials and a missing
  \<^verbatim>\<open>SECRET_KEY\<close> (in \<^verbatim>\<open>main.py\<close>) are replaced by their built-in defaults.
\<close>

theorem startup_with_missing_configuration:
  "getenv_port (py_int w) e = Inr port \<Longrightarrow>
     fst (lifespan_startup w e st) = None \<and>
     (\<exists>c'. mqtt (snd (lifespan_startup w e st)) = Some c' \<and>
           username c' = getenv e ''MQTT_USER'' ''admin'' \<and>
           password c' = getenv e ''MQTT_PASS'' ''secret'') \<and>
     (e ''INFLUX_TOKEN'' = None \<longrightarrow>
        setup_influxdb w e st =
          (False, logger st (Log Error
             ''INFLUX_TOKEN is not set properly in .env! Please update it.'' NoArg))) \<and>
     (\<exists>cfg. main_config (py_int w) e = Inr cfg \<and>
            SECRET_KEY cfg = getenv e ''SECRET_KEY'' ''your-secret-key'' \<and>
            MQTT_PASS cfg = getenv e ''MQTT_PASS'' ''secret'')"
proof (intro conjI impI)
  assume p: "getenv_port (py_int w) e = Inr port"
  show "fst (lifespan_startup w e st) = None"
    by (rule lifespan_startup_yields [OF p])
  show "\<exists>c'. mqtt (snd (lifespan_startup w e st)) = Some c' \<and>
           username c' = getenv e ''MQTT_USER'' ''admin'' \<and>
           password c' = getenv e ''MQTT_PASS'' ''secret''"
    by (rule lifespan_startup_mqtt [OF p])
  show "\<exists>cfg. main_config (py_int w) e = Inr cfg \<and>
            SECRET_KEY cfg = getenv e ''SECRET_KEY'' ''your-secret-key'' \<and>
            MQTT_PASS cfg = getenv e ''MQTT_PASS'' ''secret''"
    by (simp add: main_config_def p)
next
  assume "e ''INFLUX_TOKEN'' = None"
  then show "setup_influxdb w e st =
          (False, logger st (Log Error
             ''INFLUX_TOKEN is not set properly in .env! Please update it.'' NoArg))"
    by (rule setup_influxdb_no_token)
qed

lemma empty_port: "getenv_port (py_int world0) Map.empty = Inr 1883"
  by (simp add: getenv_port_def)

theorem startup_with_missing_configuration_witness:
  "fst (lifespan_startup world0 Map.empty (electro_initial Map.empty)) = None \<and>
   (\<exists>c'. mqtt (snd (lifespan_startup world0 Map.empty (electro_initial Map.empty))) = Some c' \<and>
         username c' = ''admin'' \<and> password c' = ''secret'') \<and>
   setup_influxdb world0 Map.empty (electro_initial Map.empty) =
     (False, logger (electro_initial Map.empty) (Log Error
        ''INFLUX_TOKEN is not set properly in .env! Please update it.'' NoArg)) \<and>
   (\<exists>cfg. main_config (py_int world0) Map.empty = Inr cfg \<and>
          SECRET_KEY cfg = ''your-secret-key'' \<and> MQTT_PASS cfg = ''secret'')"
  using startup_with_missing_configuration [OF empty_port, of "electro_initial Map.empty"]
  by (simp add: getenv_def)

lemma setup_influxdb_empty:
  "setup_influxdb world0 Map.empty st =
     (False, logger st (Log Error
        ''INFLUX_TOKEN is not set properly in .env! Please update it.'' NoArg))"
  by (simp add: setup_influxdb_def getenv_def)

lemma world0_connects: "mqtt_connect world0 attempt = None"
  by (simp add: world0_def)

lemma setup_mqtt_empty:
  "setup_mqtt world0 Map.empty st =
     (Inr True, logger (st\<lparr>mqtt := Some default_client\<rparr>) (Log Info ''MQTT setup completed.'' NoArg))"
  by (simp add: setup_mqtt_def empty_port getenv_def world0_connects eval_nat_numeral Let_def
        default_client_def)

text \<open>The claim as the specification states it fails: with nothing configured at all,
  startup is not stopped. The \<^verbatim>\<open>yield\<close> is reached with no sink client and with an
  MQTT client that carries the default credentials.\<close>

theorem startup_continues_counterexample:
  "fst (lifespan_startup world0 Map.empty (electro_initial Map.empty)) = None \<and>
   electro_log (snd (lifespan_startup world0 Map.empty (electro_initial Map.empty))) = startup_log \<and>
   influx (snd (lifespan_startup world0 Map.empty (electro_initial Map.empty))) = None \<and>
   electro_write_api (snd (lifespan_startup world0 Map.empty (electro_initial Map.empty))) = None \<and>
   mqtt (snd (lifespan_startup world0 Map.empty (electro_initial Map.empty))) = Some default_client"
  by (simp add: lifespan_startup_def setup_influxdb_empty setup_mqtt_empty logger_def
        electro_initial_def startup_log_def)

end
